theory Spec2Isabelle
  imports Main "HOL-Library.Word"
begin

section \<open>Capture manager (src/src/capture/capture.c)\<close>

subsection \<open>Data model\<close>

text \<open>
  Modelled from the spec: the capture mode of an input. The enum is declared in
  capture_input.h, which is not among the sources; the spec gives an input
  \<open>mode \<in> {live, offline}\<close> and capture.c compares against
  \<open>CAPTURE_MODE_OFFLINE\<close> only.
\<close>

datatype CaptureMode = CAPTURE_MODE_ONLINE | CAPTURE_MODE_OFFLINE

text \<open>
  Modelled from the spec: what capture.c reads from an attached input through the
  accessors \<open>capture_input_mode\<close>, \<open>capture_input_total_size\<close>,
  \<open>capture_input_loaded_size\<close> and
  \<open>g_source_is_destroyed (capture_input_source input)\<close>. The structure itself
  lives in capture_input.h (not among the sources). The two sizes are added into
  \<open>guint64\<close> accumulators by the manager.
\<close>

record CaptureInput =
  mode :: CaptureMode
  total_size :: "64 word"
  loaded_size :: "64 word"
  source_destroyed :: bool

text \<open>
  The fields of \<open>CaptureManager\<close> that the functions below read or write: the
  list of inputs (a \<open>GSList\<close>, in attachment order), the filter string
  (field \<open>filter\<close> in the source; \<open>NULL\<close> is \<open>None\<close>) and the paused
  flag. Outputs, main loop, thread, key file and TLS server are not touched by
  these functions.
\<close>

record CaptureManager =
  inputs :: "CaptureInput list"
  filter_str :: "string option"
  paused :: bool

subsection \<open>capture_status_desc\<close>

text \<open>
  The counting loop of \<open>capture_status_desc\<close>; the state is the triple
  \<open>(online, offline, loading)\<close> of the three \<open>int\<close> counters. The counters
  are unbounded integers here: each is at most the number of attached inputs.
\<close>

fun status_count :: "CaptureInput list \<Rightarrow> int \<times> int \<times> int \<Rightarrow> int \<times> int \<times> int" where
  "status_count [] acc = acc"
| "status_count (input # l) (online, offline, loading) =
     (if mode input = CAPTURE_MODE_OFFLINE
      then status_count l (online, offline + 1,
             (if \<not> source_destroyed input then loading + 1 else loading))
      else status_count l (online + 1, offline, loading))"

definition capture_status_desc :: "CaptureManager \<Rightarrow> string" where
  "capture_status_desc manager =
     (case status_count (inputs manager) (0, 0, 0) of (online, offline, loading) \<Rightarrow>
        if paused manager then
          (if online > 0 \<and> offline = 0 then ''Online (Paused)''
           else if online = 0 \<and> offline > 0 then ''Offline (Paused)''
           else ''Mixed (Paused)'')
        else if loading > 0 then
          (if online > 0 \<and> offline = 0 then ''Online (Loading)''
           else if online = 0 \<and> offline > 0 then ''Offline (Loading)''
           else ''Mixed (Loading)'')
        else
          (if online > 0 \<and> offline = 0 then ''Online''
           else if online = 0 \<and> offline > 0 then ''Offline''
           else ''Mixed''))"

subsection \<open>capture_is_online\<close>

fun is_online_loop :: "CaptureInput list \<Rightarrow> bool" where
  "is_online_loop [] = True"
| "is_online_loop (input # l) =
     (if mode input = CAPTURE_MODE_OFFLINE then False else is_online_loop l)"

definition capture_is_online :: "CaptureManager \<Rightarrow> bool" where
  "capture_is_online manager = is_online_loop (inputs manager)"

subsection \<open>capture_manager_set_filter and capture_manager_filter\<close>





subsection \<open>capture_manager_load_progress\<close>

text \<open>
  The accumulators are \<open>guint64\<close> and wrap; the result type \<open>guint\<close> is 32 bits
  wide, so the quotient is truncated. Division by zero has no value in C: it is
  \<open>None\<close> here.
\<close>

fun load_progress_loop :: "CaptureInput list \<Rightarrow> 64 word \<times> 64 word \<Rightarrow> 64 word \<times> 64 word" where
  "load_progress_loop [] acc = acc"
| "load_progress_loop (input # le) (total_acc, loaded_acc) =
     load_progress_loop le (total_acc + total_size input, loaded_acc + loaded_size input)"

definition capture_manager_load_progress :: "CaptureManager \<Rightarrow> 32 word option" where
  "capture_manager_load_progress manager =
     (case load_progress_loop (inputs manager) (0, 0) of (total_acc, loaded_acc) \<Rightarrow>
        if total_acc = 0 then None else Some (ucast ((loaded_acc * 100) div total_acc)))"

subsection \<open>The status pair of the specification\<close>

text \<open>
  The specification describes the status as a pair
  \<open>{Online|Offline|Mixed} \<times> {Running|Loading|Paused}\<close>. \<open>spec_status\<close> follows
  the specification's words; \<open>status_text\<close> is the string that stands for a pair.
\<close>

datatype StatusMode = Online | Offline | Mixed

datatype StatusRun = Running | Loading | Paused

definition spec_status :: "CaptureManager \<Rightarrow> StatusMode \<times> StatusRun" where
  "spec_status manager =
     (let live = (\<exists>i \<in> set (inputs manager). mode i = CAPTURE_MODE_ONLINE);
          offl = (\<exists>i \<in> set (inputs manager). mode i = CAPTURE_MODE_OFFLINE);
          loading = (\<exists>i \<in> set (inputs manager).
                       mode i = CAPTURE_MODE_OFFLINE \<and> \<not> source_destroyed i)
      in (if live \<and> \<not> offl then Online else if offl \<and> \<not> live then Offline else Mixed,
          if paused manager then Paused else if loading then Loading else Running))"

fun status_text :: "StatusMode \<times> StatusRun \<Rightarrow> string" where
  "status_text (m, r) =
     (case m of Online \<Rightarrow> ''Online'' | Offline \<Rightarrow> ''Offline'' | Mixed \<Rightarrow> ''Mixed'') @
     (case r of Running \<Rightarrow> [] | Loading \<Rightarrow> '' (Loading)'' | Paused \<Rightarrow> '' (Paused)'')"

section \<open>SDP dissector (packet_sdp.c and packet_sdp.h, src/unnamed/part_001)\<close>

subsection \<open>C strings, and the GLib and libc functions the dissector calls\<close>

text \<open>
  A \<open>string\<close> holds the bytes of a C string before its terminating NUL; reading
  the byte at the end of the list reads that NUL. \<open>c_str\<close> is the C string that
  starts a byte buffer.
\<close>

definition c_str :: "string \<Rightarrow> string" where
  "c_str bytes = takeWhile (\<lambda>c. c \<noteq> CHR 0x00) bytes"

definition g_ascii_tolower :: "char \<Rightarrow> char" where
  "g_ascii_tolower c =
     (if 65 \<le> (of_char c :: nat) \<and> (of_char c :: nat) \<le> 90
      then char_of (of_char c + 32 :: nat) else c)"

text \<open>
  \<open>g_ascii_strcasecmp\<close>: compare byte by byte after ASCII lower-casing while both
  strings last; at the end of either (the end of the list or a NUL byte) the
  difference of the current bytes, where the terminator counts as 0.
\<close>

fun g_ascii_strcasecmp :: "string \<Rightarrow> string \<Rightarrow> int" where
  "g_ascii_strcasecmp [] [] = 0"
| "g_ascii_strcasecmp [] (b # s2) = - int (of_char b)"
| "g_ascii_strcasecmp (a # s1) [] = int (of_char a)"
| "g_ascii_strcasecmp (a # s1) (b # s2) =
     (if a \<noteq> CHR 0x00 \<and> b \<noteq> CHR 0x00 then
        (let c1 = int (of_char (g_ascii_tolower a));
             c2 = int (of_char (g_ascii_tolower b))
         in if c1 \<noteq> c2 then c1 - c2 else g_ascii_strcasecmp s1 s2)
      else int (of_char a) - int (of_char b))"

text \<open>\<open>strstr\<close>: the offset of the first occurrence of the needle, if any.\<close>

fun strstr :: "string \<Rightarrow> string \<Rightarrow> nat option" where
  "strstr [] needle = (if needle = [] then Some 0 else None)"
| "strstr (c # cs) needle =
     (if take (length needle) (c # cs) = needle then Some 0
      else map_option Suc (strstr cs needle))"

definition G_MAXINT :: int where
  "G_MAXINT = 2147483647"

text \<open>
  \<open>g_strsplit\<close>: at most \<open>max_tokens\<close> pieces, the last one holding the rest of
  the string; fewer than one means no limit (\<open>G_MAXINT\<close>). The empty string gives
  the empty vector. The delimiter is not empty at any call site.
\<close>

fun g_strsplit_loop :: "string \<Rightarrow> string \<Rightarrow> nat \<Rightarrow> string list" where
  "g_strsplit_loop remainder delimiter max_tokens =
     (if max_tokens \<le> 1 then [remainder]
      else (case strstr remainder delimiter of
              None \<Rightarrow> [remainder]
            | Some len \<Rightarrow>
                take len remainder #
                g_strsplit_loop (drop (len + length delimiter) remainder) delimiter
                  (max_tokens - 1)))"

declare g_strsplit_loop.simps [simp del]

definition g_strsplit :: "string \<Rightarrow> string \<Rightarrow> int \<Rightarrow> string list" where
  "g_strsplit str delimiter max_tokens =
     (if str = [] then []
      else g_strsplit_loop str delimiter
             (nat (if max_tokens < 1 then G_MAXINT else max_tokens)))"

text \<open>
  \<open>g_strsplit_set\<close>: split at every byte that is one of the delimiters, while
  fewer than \<open>max_tokens - 1\<close> pieces have been cut.
\<close>

fun g_strsplit_set_loop :: "string \<Rightarrow> string \<Rightarrow> nat \<Rightarrow> string \<Rightarrow> string list" where
  "g_strsplit_set_loop [] delimiters max_tokens current = [current]"
| "g_strsplit_set_loop (c # s) delimiters max_tokens current =
     (if c \<in> set delimiters \<and> 1 < max_tokens
      then current # g_strsplit_set_loop s delimiters (max_tokens - 1) []
      else g_strsplit_set_loop s delimiters max_tokens (current @ [c]))"

definition g_strsplit_set :: "string \<Rightarrow> string \<Rightarrow> int \<Rightarrow> string list" where
  "g_strsplit_set str delimiters max_tokens =
     (if str = [] then []
      else g_strsplit_set_loop str delimiters
             (nat (if max_tokens < 1 then G_MAXINT else max_tokens)) [])"

text \<open>
  \<open>strtoul (s, NULL, 10)\<close> with a 64-bit \<open>unsigned long\<close>: white space, an
  optional sign, decimal digits; no digits give 0, a value beyond \<open>ULONG_MAX\<close>
  gives \<open>ULONG_MAX\<close>, a minus sign negates the value in the unsigned type.
\<close>

definition isspace :: "char \<Rightarrow> bool" where
  "isspace c \<longleftrightarrow> c \<in> set [CHR 0x20, CHR 0x09, CHR 0x0A, CHR 0x0B, CHR 0x0C, CHR 0x0D]"

definition isdigit :: "char \<Rightarrow> bool" where
  "isdigit c \<longleftrightarrow> 48 \<le> (of_char c :: nat) \<and> (of_char c :: nat) \<le> 57"

fun strtoul_digits :: "nat \<Rightarrow> string \<Rightarrow> nat" where
  "strtoul_digits acc [] = acc"
| "strtoul_digits acc (c # s) =
     (if isdigit c then strtoul_digits (acc * 10 + (of_char c - 48)) s else acc)"

definition strtoul :: "string \<Rightarrow> 64 word" where
  "strtoul nptr =
     (let s = dropWhile isspace nptr;
          negative = (s \<noteq> [] \<and> hd s = CHR ''-'');
          s' = (if s \<noteq> [] \<and> (hd s = CHR ''-'' \<or> hd s = CHR ''+'') then tl s else s);
          v = strtoul_digits 0 s'
      in if 2 ^ 64 \<le> v then - 1
         else if negative then - of_nat v else of_nat v)"

text \<open>
  \<open>g_utf8_strncpy (dest, src, n)\<close> steps over at most \<open>n\<close> characters with the
  skip table, copies the bytes stepped over and writes a terminator behind them.
  \<open>utf8_offset\<close> is the number of bytes stepped over; it is \<open>None\<close> when a lead
  byte at the end of the string carries the pointer beyond the terminator and the
  loop reads there.
\<close>

definition g_utf8_skip :: "char \<Rightarrow> nat" where
  "g_utf8_skip c =
     (let b = (of_char c :: nat)
      in if b < 192 then 1 else if b < 224 then 2 else if b < 240 then 3
         else if b < 248 then 4 else if b < 252 then 5 else if b < 254 then 6 else 1)"

fun utf8_offset :: "string \<Rightarrow> nat \<Rightarrow> nat option" where
  "utf8_offset s 0 = Some 0"
| "utf8_offset [] (Suc n) = Some 0"
| "utf8_offset (c # cs) (Suc n) =
     (let k = g_utf8_skip c
      in if k \<le> length (c # cs) then map_option ((+) k) (utf8_offset (drop k (c # cs)) n)
         else if n = 0 then Some k else None)"

datatype sdp_error = OutOfBounds | NullDeref | BufferOverflow

text \<open>
  The destination holds \<open>dest_size\<close> bytes; the copy writes one byte more than it
  stepped over.
\<close>

definition g_utf8_strncpy :: "nat \<Rightarrow> string \<Rightarrow> nat \<Rightarrow> sdp_error + string" where
  "g_utf8_strncpy dest_size src n =
     (case utf8_offset src n of
        None \<Rightarrow> Inl OutOfBounds
      | Some k \<Rightarrow> if dest_size < k + 1 then Inl BufferOverflow else Inr (take k src))"


subsection \<open>Data model (packet_sdp.h)\<close>

datatype PacketSdpMediaType =
    SDP_MEDIA_UNKNOWN
  | SDP_MEDIA_AUDIO
  | SDP_MEDIA_VIDEO
  | SDP_MEDIA_TEXT
  | SDP_MEDIA_APPLICATION
  | SDP_MEDIA_MESSAGE
  | SDP_MEDIA_IMAGE

text \<open>
  Modelled from the spec: the endpoint type \<open>Address\<close> and its constructor
  \<open>address_new\<close> are declared in address.h, which is not among the sources. The
  spec describes an address as IP, port and transport; the SDP dissector builds
  one from a connection address and an RTP port.
\<close>

record Address =
  ip :: string
  port :: "16 word"

definition address_new :: "string \<Rightarrow> 16 word \<Rightarrow> Address" where
  "address_new ip_str port_no = \<lparr>ip = ip_str, port = port_no\<rparr>"

text \<open>
  \<open>PacketSdpFormat\<close>: field \<open>id\<close> of the source is \<open>format_id\<close>, field
  \<open>alias\<close> is \<open>format_alias\<close>; a \<open>NULL\<close> string is \<open>None\<close>.
\<close>

record PacketSdpFormat =
  format_id :: "32 word"
  name :: "string option"
  format_alias :: "string option"

text \<open>
  \<open>PacketSdpMedia\<close>: field \<open>type\<close> of the source is \<open>media_type\<close>, field
  \<open>sconn\<close> (a pointer to a \<open>PacketSdpConnection\<close>, whose only member is the
  address string) is \<open>media_sconn\<close>, field \<open>formats\<close> is \<open>media_formats\<close>. A
  zeroed \<open>address\<close> is \<open>None\<close>.
\<close>

record PacketSdpMedia =
  media_type :: PacketSdpMediaType
  media_sconn :: "string option"
  rtpport :: "16 word"
  rtcpport :: "16 word"
  address :: "Address option"
  channel :: "string option"
  media_formats :: "PacketSdpFormat list"

text \<open>
  \<open>PacketSdpData\<close>: the session connection and the media list. The member
  \<open>proto\<close> always carries \<open>PACKET_PROTO_SDP\<close> and is left out.
\<close>

record PacketSdpData =
  sconn :: "string option"
  medias :: "PacketSdpMedia list"

abbreviation (input) SDP_CONN_ADDRESS :: nat where "SDP_CONN_ADDRESS \<equiv> 2"
abbreviation (input) SDP_MEDIA_MEDIA :: nat where "SDP_MEDIA_MEDIA \<equiv> 0"
abbreviation (input) SDP_MEDIA_PORT :: nat where "SDP_MEDIA_PORT \<equiv> 1"
abbreviation (input) SDP_MEDIA_FORMAT :: nat where "SDP_MEDIA_FORMAT \<equiv> 3"
abbreviation (input) SDP_ATTR_NAME :: nat where "SDP_ATTR_NAME \<equiv> 0"
abbreviation (input) SDP_ATTR_VALUE :: nat where "SDP_ATTR_VALUE \<equiv> 1"
abbreviation (input) SDP_RTPMAP_CODE :: nat where "SDP_RTPMAP_CODE \<equiv> 1"
abbreviation (input) SDP_RTPMAP_NAME :: nat where "SDP_RTPMAP_NAME \<equiv> 2"

subsection \<open>Tables\<close>

definition formats :: "PacketSdpFormat list" where
  "formats =
    [\<lparr>format_id = 0, name = Some ''PCMU/8000'', format_alias = Some ''g711u''\<rparr>,
     \<lparr>format_id = 3, name = Some ''GSM/8000'', format_alias = Some ''gsm''\<rparr>,
     \<lparr>format_id = 4, name = Some ''G723/8000'', format_alias = Some ''g723''\<rparr>,
     \<lparr>format_id = 5, name = Some ''DVI4/8000'', format_alias = Some ''dvi''\<rparr>,
     \<lparr>format_id = 6, name = Some ''DVI4/16000'', format_alias = Some ''dvi''\<rparr>,
     \<lparr>format_id = 7, name = Some ''LPC/8000'', format_alias = Some ''lpc''\<rparr>,
     \<lparr>format_id = 8, name = Some ''PCMA/8000'', format_alias = Some ''g711a''\<rparr>,
     \<lparr>format_id = 9, name = Some ''G722/8000'', format_alias = Some ''g722''\<rparr>,
     \<lparr>format_id = 10, name = Some ''L16/44100'', format_alias = Some ''l16''\<rparr>,
     \<lparr>format_id = 11, name = Some ''L16/44100'', format_alias = Some ''l16''\<rparr>,
     \<lparr>format_id = 12, name = Some ''QCELP/8000'', format_alias = Some ''qcelp''\<rparr>,
     \<lparr>format_id = 13, name = Some ''CN/8000'', format_alias = Some ''cn''\<rparr>,
     \<lparr>format_id = 14, name = Some ''MPA/90000'', format_alias = Some ''mpa''\<rparr>,
     \<lparr>format_id = 15, name = Some ''G728/8000'', format_alias = Some ''g728''\<rparr>,
     \<lparr>format_id = 16, name = Some ''DVI4/11025'', format_alias = Some ''dvi''\<rparr>,
     \<lparr>format_id = 17, name = Some ''DVI4/22050'', format_alias = Some ''dvi''\<rparr>,
     \<lparr>format_id = 18, name = Some ''G729/8000'', format_alias = Some ''g729''\<rparr>,
     \<lparr>format_id = 25, name = Some ''CelB/90000'', format_alias = Some ''celb''\<rparr>,
     \<lparr>format_id = 26, name = Some ''JPEG/90000'', format_alias = Some ''jpeg''\<rparr>,
     \<lparr>format_id = 28, name = Some ''nv/90000'', format_alias = Some ''nv''\<rparr>,
     \<lparr>format_id = 31, name = Some ''H261/90000'', format_alias = Some ''h261''\<rparr>,
     \<lparr>format_id = 32, name = Some ''MPV/90000'', format_alias = Some ''mpv''\<rparr>,
     \<lparr>format_id = 33, name = Some ''MP2T/90000'', format_alias = Some ''mp2t''\<rparr>,
     \<lparr>format_id = 34, name = Some ''H263/90000'', format_alias = Some ''h263''\<rparr>]"

definition media_types :: "(string \<times> PacketSdpMediaType) list" where
  "media_types =
    [(''audio'', SDP_MEDIA_AUDIO),
     (''video'', SDP_MEDIA_VIDEO),
     (''text'', SDP_MEDIA_TEXT),
     (''application'', SDP_MEDIA_APPLICATION),
     (''message'', SDP_MEDIA_MESSAGE),
     (''image'', SDP_MEDIA_IMAGE)]"

subsection \<open>Lookups\<close>

text \<open>Each lookup is a loop over a table that returns at the first match.\<close>

definition packet_sdp_media_type_str :: "PacketSdpMediaType \<Rightarrow> string option" where
  "packet_sdp_media_type_str t = map_option fst (find (\<lambda>e. snd e = t) media_types)"

definition packet_sdp_media_type :: "string \<Rightarrow> PacketSdpMediaType" where
  "packet_sdp_media_type media =
     (case find (\<lambda>e. g_ascii_strcasecmp media (fst e) = 0) media_types of
        Some e \<Rightarrow> snd e
      | None \<Rightarrow> SDP_MEDIA_UNKNOWN)"

definition packet_sdp_standard_format :: "32 word \<Rightarrow> PacketSdpFormat option" where
  "packet_sdp_standard_format code = find (\<lambda>f. format_id f = code) formats"

subsection \<open>Line dissectors\<close>

text \<open>
  The \<open>media\<close> pointer of the dissector is the position of the media in
  \<open>sdp->medias\<close>, \<open>None\<close> for \<open>NULL\<close>: writes through the pointer change the
  element of the list. \<open>ADDRESSLEN\<close> (address.h, not among the sources) is a
  parameter.
\<close>

definition packet_sdp_dissect_connection ::
  "nat \<Rightarrow> PacketSdpData \<Rightarrow> nat option \<Rightarrow> string \<Rightarrow> sdp_error + PacketSdpData" where
  "packet_sdp_dissect_connection ADDRESSLEN sdp media line =
     (let conn_data = g_strsplit line '' '' 3
      in if length conn_data < 3 then Inr sdp
         else (case g_utf8_strncpy ADDRESSLEN (conn_data ! SDP_CONN_ADDRESS) ADDRESSLEN of
                 Inl e \<Rightarrow> Inl e
               | Inr conn \<Rightarrow>
                   (case media of
                      None \<Rightarrow> Inr (sdp\<lparr>sconn := Some conn\<rparr>)
                    | Some k \<Rightarrow>
                        Inr (sdp\<lparr>medias := (medias sdp)
                               [k := (medias sdp ! k)
                                  \<lparr>media_sconn := Some conn,
                                   address := Some (address_new conn (rtpport (medias sdp ! k)))\<rparr>]\<rparr>))))"

text \<open>
  The loop over the format codes of a media line. For a code of the standard table
  the list gets the address of the table row; the rows are never written (the rtpmap
  branch writes only to records whose code is not in the table), so the list holds
  the value of the row.
\<close>

fun dissect_media_formats :: "string list \<Rightarrow> PacketSdpFormat list \<Rightarrow> PacketSdpFormat list" where
  "dissect_media_formats [] acc = acc"
| "dissect_media_formats (f # fs) acc =
     (let code = (ucast (strtoul f) :: 32 word);
          format = (case packet_sdp_standard_format code of
                      Some std \<Rightarrow> std
                    | None \<Rightarrow> \<lparr>format_id = code, name = None, format_alias = None\<rparr>)
      in dissect_media_formats fs (acc @ [format]))"

definition packet_sdp_dissect_media :: "PacketSdpData \<Rightarrow> string \<Rightarrow> PacketSdpMedia option" where
  "packet_sdp_dissect_media sdp line =
     (let media_data = g_strsplit line '' '' 4
      in if length media_data < 4 then None
         else
           (let port_no = (ucast (strtoul (media_data ! SDP_MEDIA_PORT)) :: 16 word)
            in Some \<lparr>media_type = packet_sdp_media_type (media_data ! SDP_MEDIA_MEDIA),
                     media_sconn = None,
                     rtpport = port_no,
                     rtcpport = 0,
                     address = (case sconn sdp of
                                  Some conn \<Rightarrow> Some (address_new conn port_no)
                                | None \<Rightarrow> None),
                     channel = None,
                     media_formats =
                       dissect_media_formats
                         (g_strsplit (media_data ! SDP_MEDIA_FORMAT) '' '' (- 1)) []\<rparr>))"

text \<open>
  The search of the rtpmap branch: the first format of the media with the code gets
  the name, as name and as alias.
\<close>

fun rtpmap_set_name :: "32 word \<Rightarrow> string \<Rightarrow> PacketSdpFormat list \<Rightarrow> PacketSdpFormat list" where
  "rtpmap_set_name code value [] = []"
| "rtpmap_set_name code value (format # fs) =
     (if format_id format = code
      then format\<lparr>name := Some value, format_alias := Some value\<rparr> # fs
      else format # rtpmap_set_name code value fs)"

definition packet_sdp_dissect_attribute ::
  "PacketSdpData \<Rightarrow> nat option \<Rightarrow> string \<Rightarrow> sdp_error + PacketSdpData" where
  "packet_sdp_dissect_attribute sdp media line =
     (let rtpattr = g_strsplit_set line '' :/'' (- 1)
      in if length rtpattr < 2 then Inr sdp
         else if g_ascii_strcasecmp (rtpattr ! SDP_ATTR_NAME) ''rtpmap'' = 0 then
           (if length rtpattr < 3 then Inr sdp
            else
              (let code = (ucast (strtoul (rtpattr ! SDP_RTPMAP_CODE)) :: 32 word)
               in case packet_sdp_standard_format code of
                    Some std \<Rightarrow> Inr sdp
                  | None \<Rightarrow>
                      (case media of
                         None \<Rightarrow> Inl NullDeref
                       | Some k \<Rightarrow>
                           Inr (sdp\<lparr>medias := (medias sdp)
                                  [k := (medias sdp ! k)
                                     \<lparr>media_formats :=
                                        rtpmap_set_name code (rtpattr ! SDP_RTPMAP_NAME)
                                          (media_formats (medias sdp ! k))\<rparr>]\<rparr>))))
         else if g_ascii_strcasecmp (rtpattr ! SDP_ATTR_NAME) ''rtcp'' = 0 then
           (case media of
              None \<Rightarrow> Inl NullDeref
            | Some k \<Rightarrow>
                Inr (sdp\<lparr>medias := (medias sdp)
                       [k := (medias sdp ! k)
                          \<lparr>rtcpport := ucast (strtoul (rtpattr ! SDP_ATTR_VALUE))\<rparr>]\<rparr>))
         else if g_ascii_strcasecmp (rtpattr ! SDP_ATTR_NAME) ''channel'' = 0 then
           (case media of
              None \<Rightarrow> Inl NullDeref
            | Some k \<Rightarrow>
                Inr (sdp\<lparr>medias := (medias sdp)
                       [k := (medias sdp ! k)\<lparr>channel := Some (rtpattr ! SDP_ATTR_VALUE)\<rparr>]\<rparr>))
         else Inr sdp)"

subsection \<open>packet_dissector_sdp_dissect\<close>

text \<open>
  One round of the loop over the lines; the state is \<open>sdp\<close> and the \<open>media\<close>
  pointer. \<open>line = lines[i] + 2\<close> lies within the string when the line has two
  bytes or more; a line of one byte that starts with c, m or a makes the callee read
  behind the terminator.
\<close>

definition dissect_line ::
  "nat \<Rightarrow> PacketSdpData \<times> nat option \<Rightarrow> string \<Rightarrow> sdp_error + (PacketSdpData \<times> nat option)" where
  "dissect_line ADDRESSLEN st l =
     (case st of (sdp, media) \<Rightarrow>
        (case l of
           [] \<Rightarrow> Inr (sdp, media)
         | c # rest \<Rightarrow>
             if c = CHR ''c'' then
               (if length l < 2 then Inl OutOfBounds
                else (case packet_sdp_dissect_connection ADDRESSLEN sdp media (drop 2 l) of
                        Inl e \<Rightarrow> Inl e
                      | Inr sdp' \<Rightarrow> Inr (sdp', media)))
             else if c = CHR ''m'' then
               (if length l < 2 then Inl OutOfBounds
                else (case packet_sdp_dissect_media sdp (drop 2 l) of
                        None \<Rightarrow> Inr (sdp, None)
                      | Some m \<Rightarrow>
                          Inr (sdp\<lparr>medias := medias sdp @ [m]\<rparr>, Some (length (medias sdp)))))
             else if c = CHR ''a'' then
               (if length l < 2 then Inl OutOfBounds
                else (case packet_sdp_dissect_attribute sdp media (drop 2 l) of
                        Inl e \<Rightarrow> Inl e
                      | Inr sdp' \<Rightarrow> Inr (sdp', media)))
             else Inr (sdp, media)))"

fun dissect_lines ::
  "nat \<Rightarrow> PacketSdpData \<times> nat option \<Rightarrow> string list
     \<Rightarrow> sdp_error + (PacketSdpData \<times> nat option)" where
  "dissect_lines ADDRESSLEN st [] = Inr st"
| "dissect_lines ADDRESSLEN st (l # ls) =
     (case dissect_line ADDRESSLEN st l of
        Inl e \<Rightarrow> Inl e
      | Inr st' \<Rightarrow> dissect_lines ADDRESSLEN st' ls)"

text \<open>
  The result is the returned residual bytes (\<open>None\<close> for \<open>NULL\<close>) and the SDP data
  stored in the packet under \<open>PACKET_PROTO_SDP\<close>, if any. The payload is read as
  a C string, so it ends at its first NUL byte.
\<close>

definition CRLF :: string where
  "CRLF = [CHR 0x0D, CHR 0x0A]"

definition packet_dissector_sdp_dissect ::
  "nat \<Rightarrow> string \<Rightarrow> sdp_error + (string option \<times> PacketSdpData option)" where
  "packet_dissector_sdp_dissect ADDRESSLEN data =
     (if length data = 0 then Inr (Some data, None)
      else
        (let payload = c_str data;
             lines = g_strsplit payload CRLF (- 1)
         in case dissect_lines ADDRESSLEN (\<lparr>sconn = None, medias = []\<rparr>, None) lines of
              Inl e \<Rightarrow> Inl e
            | Inr (sdp, media) \<Rightarrow> Inr (None, Some sdp)))"

section \<open>Properties of the capture manager\<close>

subsection \<open>Status description\<close>

text \<open>The three counters, read off the input list.\<close>

lemma status_count_eq:
  "status_count l (a, b, c) =
     (a + int (length (filter (\<lambda>i. mode i \<noteq> CAPTURE_MODE_OFFLINE) l)),
      b + int (length (filter (\<lambda>i. mode i = CAPTURE_MODE_OFFLINE) l)),
      c + int (length (filter (\<lambda>i. mode i = CAPTURE_MODE_OFFLINE \<and> \<not> source_destroyed i) l)))"
  by (induction l arbitrary: a b c) auto

lemma mode_not_offline: "mode i \<noteq> CAPTURE_MODE_OFFLINE \<longleftrightarrow> mode i = CAPTURE_MODE_ONLINE"
  by (cases "mode i") auto

text \<open>
  C7. For every manager state the string returned by \<open>capture_status_desc\<close> is the
  text of the pair the specification describes: the first component is Online iff
  some attached input is live and none is offline, Offline iff some input is offline
  and none is live, Mixed otherwise; the second is Paused whenever the paused flag is
  set, Loading when not paused and some offline input's source is not destroyed,
  Running (no suffix) otherwise.
\<close>

theorem capture_status_desc_pair:
  "capture_status_desc manager = status_text (spec_status manager)"
  unfolding capture_status_desc_def spec_status_def Let_def
  by (auto simp add: status_count_eq mode_not_offline filter_empty_conv)

theorem capture_status_desc_pair_witness:
  "capture_status_desc
     \<lparr>inputs = [\<lparr>mode = CAPTURE_MODE_OFFLINE, total_size = 10, loaded_size = 4,
                 source_destroyed = False\<rparr>],
      filter_str = None, paused = False\<rparr> = ''Offline (Loading)''"
  using capture_status_desc_pair
    [of "\<lparr>inputs = [\<lparr>mode = CAPTURE_MODE_OFFLINE, total_size = 10, loaded_size = 4,
                       source_destroyed = False\<rparr>],
          filter_str = None, paused = False\<rparr>"]
  by (simp add: spec_status_def)

text \<open>Distinct pairs have distinct texts, so the string determines the pair.\<close>

lemma status_text_eqD:
  "status_text (m, r) = status_text (m', r') \<Longrightarrow> m = m' \<and> r = r'"
  by (cases m; cases r; cases m'; cases r'; simp)

lemma status_text_inj: "inj status_text"
  by (rule injI) (metis status_text_eqD prod.collapse)

subsection \<open>Online test\<close>

lemma is_online_loop_iff:
  "is_online_loop l \<longleftrightarrow> (\<forall>i \<in> set l. mode i \<noteq> CAPTURE_MODE_OFFLINE)"
  by (induction l) auto

text \<open>
  C8. \<open>capture_is_online\<close> returns true iff every attached input is live, that is,
  no attached input is in offline mode; a manager without inputs is online.
\<close>

theorem capture_is_online_iff:
  "(capture_is_online manager \<longleftrightarrow>
      (\<forall>i \<in> set (inputs manager). mode i = CAPTURE_MODE_ONLINE)) \<and>
   (capture_is_online manager \<longleftrightarrow>
      \<not> (\<exists>i \<in> set (inputs manager). mode i = CAPTURE_MODE_OFFLINE)) \<and>
   (inputs manager = [] \<longrightarrow> capture_is_online manager)"
  by (auto simp add: capture_is_online_def is_online_loop_iff mode_not_offline)

theorem capture_is_online_iff_witness:
  "capture_is_online \<lparr>inputs = [], filter_str = None, paused = False\<rparr> \<and>
   \<not> capture_is_online
       \<lparr>inputs = [\<lparr>mode = CAPTURE_MODE_ONLINE, total_size = 0, loaded_size = 7,
                   source_destroyed = False\<rparr>,
                  \<lparr>mode = CAPTURE_MODE_OFFLINE, total_size = 10, loaded_size = 4,
                   source_destroyed = False\<rparr>],
        filter_str = None, paused = False\<rparr>"
  using capture_is_online_iff [of "\<lparr>inputs = [], filter_str = None, paused = False\<rparr>"]
    capture_is_online_iff
      [of "\<lparr>inputs = [\<lparr>mode = CAPTURE_MODE_ONLINE, total_size = 0, loaded_size = 7,
                         source_destroyed = False\<rparr>,
                        \<lparr>mode = CAPTURE_MODE_OFFLINE, total_size = 10, loaded_size = 4,
                         source_destroyed = False\<rparr>],
            filter_str = None, paused = False\<rparr>"]
  by simp

subsection \<open>Setting the filter\<close>






subsection \<open>Load progress\<close>

lemma load_progress_loop_eq:
  "load_progress_loop l (t, d) =
     (t + of_nat (\<Sum>i\<leftarrow>l. unat (total_size i)), d + of_nat (\<Sum>i\<leftarrow>l. unat (loaded_size i)))"
  by (induction l arbitrary: t d) (auto simp: algebra_simps)

text \<open>
  C2. The function divides the loaded bytes by the total bytes without looking at the
  total. With a single live input, whose total size is 0, the total is 0 and the
  division is by zero: there is no value. With a live input that has loaded 1500
  bytes next to a fully loaded file of 1000 bytes the result is 250.
\<close>

theorem capture_manager_load_progress_live_inputs:
  "capture_manager_load_progress
     \<lparr>inputs = [\<lparr>mode = CAPTURE_MODE_ONLINE, total_size = 0, loaded_size = 1500,
                 source_destroyed = False\<rparr>],
      filter_str = None, paused = False\<rparr> = None \<and>
   capture_manager_load_progress
     \<lparr>inputs = [\<lparr>mode = CAPTURE_MODE_ONLINE, total_size = 0, loaded_size = 1500,
                 source_destroyed = False\<rparr>,
                \<lparr>mode = CAPTURE_MODE_OFFLINE, total_size = 1000, loaded_size = 1000,
                 source_destroyed = True\<rparr>],
      filter_str = None, paused = False\<rparr> = Some 250"
  by (simp add: capture_manager_load_progress_def)

text \<open>
  What the function does compute: let T and L be the sums of \<open>total_size\<close> and of
  \<open>loaded_size\<close> over all attached inputs, live ones included. When T is positive,
  L is at most T and 100 * T fits 64 bits, the result is the percentage
  (100 * L) div T, which lies in 0..100.
\<close>

lemma capture_manager_load_progress_percent:
  fixes manager :: CaptureManager
  defines "T \<equiv> (\<Sum>i\<leftarrow>inputs manager. unat (total_size i))"
      and "L \<equiv> (\<Sum>i\<leftarrow>inputs manager. unat (loaded_size i))"
  assumes "0 < T" "L \<le> T" "100 * T < 2 ^ 64"
  shows "\<exists>p. capture_manager_load_progress manager = Some p \<and>
             unat p = (100 * L) div T \<and> unat p \<le> 100"
proof -
  have T64: "T < 2 ^ 64" and L64: "L * 100 < 2 ^ 64"
    using assms by auto
  have uT: "unat (of_nat T :: 64 word) = T"
    using T64 by (simp add: unat_of_nat)
  have uL: "unat (of_nat L * 100 :: 64 word) = L * 100"
  proof -
    have "(of_nat L * 100 :: 64 word) = of_nat (L * 100)" by simp
    then show ?thesis using L64 by (simp only: unat_of_nat) simp
  qed
  have Tne: "(of_nat T :: 64 word) \<noteq> 0"
    using uT \<open>0 < T\<close> by auto
  have q: "unat ((of_nat L * 100 :: 64 word) div of_nat T) = (L * 100) div T"
    by (simp only: unat_div uT uL)
  have le: "(L * 100) div T \<le> 100"
  proof -
    have "L * 100 \<le> T * 100" using \<open>L \<le> T\<close> by simp
    then have "(L * 100) div T \<le> (T * 100) div T" by (rule div_le_mono)
    then show ?thesis using \<open>0 < T\<close> by simp
  qed
  have uc: "unat (ucast ((of_nat L * 100 :: 64 word) div of_nat T) :: 32 word) = (L * 100) div T"
  proof -
    have "unat ((of_nat L * 100 :: 64 word) div of_nat T) < 2 ^ 32"
      using q le by simp
    then show ?thesis
      using q by (simp add: unsigned_ucast_eq take_bit_nat_eq_self)
  qed
  show ?thesis
    using Tne uc le
    by (simp add: capture_manager_load_progress_def load_progress_loop_eq
          T_def[symmetric] L_def[symmetric] mult.commute)
qed

lemma capture_manager_load_progress_percent_example:
  "\<exists>p. capture_manager_load_progress
         \<lparr>inputs = [\<lparr>mode = CAPTURE_MODE_OFFLINE, total_size = 1000, loaded_size = 250,
                     source_destroyed = False\<rparr>,
                    \<lparr>mode = CAPTURE_MODE_OFFLINE, total_size = 3000, loaded_size = 3000,
                     source_destroyed = True\<rparr>],
          filter_str = None, paused = False\<rparr> = Some p \<and> unat p = 81"
  using capture_manager_load_progress_percent
    [of "\<lparr>inputs = [\<lparr>mode = CAPTURE_MODE_OFFLINE, total_size = 1000, loaded_size = 250,
                      source_destroyed = False\<rparr>,
                     \<lparr>mode = CAPTURE_MODE_OFFLINE, total_size = 3000, loaded_size = 3000,
                      source_destroyed = True\<rparr>],
          filter_str = None, paused = False\<rparr>"]
  by simp blast

section \<open>Properties of the SDP dissector\<close>

subsection \<open>Copying the connection address\<close>




lemma utf8_offset_single:
  "\<forall>c \<in> set s. g_utf8_skip c = 1 \<Longrightarrow> utf8_offset s n = Some (min (length s) n)"
proof (induction s n rule: utf8_offset.induct)
  case (3 c cs n)
  then show ?case by (simp add: Let_def)
qed simp_all

lemma g_utf8_strncpy_single:
  "\<forall>c \<in> set s. g_utf8_skip c = 1 \<Longrightarrow> length s < n \<Longrightarrow> g_utf8_strncpy n s n = Inr s"
  by (simp add: g_utf8_strncpy_def utf8_offset_single)

subsection \<open>The media extraction scenario\<close>

lemma scenario_split:
  "g_strsplit (''v=0'' @ CRLF @ ''c=IN IP4 10.0.0.1'' @ CRLF @ ''m=audio 4000 RTP/AVP 0 8'' @ CRLF @
               ''a=rtpmap:0 PCMU/8000'') CRLF (- 1) =
     [''v=0'', ''c=IN IP4 10.0.0.1'', ''m=audio 4000 RTP/AVP 0 8'', ''a=rtpmap:0 PCMU/8000'']"
  by (simp add: CRLF_def g_strsplit_def g_strsplit_loop.simps G_MAXINT_def)

lemma scenario_line_v: "dissect_line A (sdp, m) ''v=0'' = Inr (sdp, m)"
  by (simp add: dissect_line_def)

lemma scenario_address: "9 \<le> A \<Longrightarrow> g_utf8_strncpy A ''10.0.0.1'' A = Inr ''10.0.0.1''"
  by (rule g_utf8_strncpy_single) (simp_all add: g_utf8_skip_def)

lemma scenario_line_c:
  "9 \<le> A \<Longrightarrow>
   dissect_line A (\<lparr>sconn = None, medias = []\<rparr>, None) ''c=IN IP4 10.0.0.1'' =
     Inr (\<lparr>sconn = Some ''10.0.0.1'', medias = []\<rparr>, None)"
  by (simp add: dissect_line_def packet_sdp_dissect_connection_def g_strsplit_def
        g_strsplit_loop.simps scenario_address)

lemma standard_format_0:
  "packet_sdp_standard_format 0 =
     Some \<lparr>format_id = 0, name = Some ''PCMU/8000'', format_alias = Some ''g711u''\<rparr>"
  by (simp add: packet_sdp_standard_format_def formats_def)

lemma standard_format_8:
  "packet_sdp_standard_format 8 =
     Some \<lparr>format_id = 8, name = Some ''PCMA/8000'', format_alias = Some ''g711a''\<rparr>"
  by (simp add: packet_sdp_standard_format_def formats_def)

lemma strtoul_4000: "strtoul ''4000'' = 4000"
  by (simp add: strtoul_def isspace_def isdigit_def)

lemma strtoul_0: "strtoul ''0'' = 0"
  by (simp add: strtoul_def isspace_def isdigit_def)

lemma strtoul_8: "strtoul ''8'' = 8"
  by (simp add: strtoul_def isspace_def isdigit_def)

lemma media_type_audio: "packet_sdp_media_type ''audio'' = SDP_MEDIA_AUDIO"
  by (simp add: packet_sdp_media_type_def media_types_def g_ascii_tolower_def)

lemma scenario_media:
  "packet_sdp_dissect_media \<lparr>sconn = Some ''10.0.0.1'', medias = []\<rparr> ''audio 4000 RTP/AVP 0 8'' =
     Some \<lparr>media_type = SDP_MEDIA_AUDIO, media_sconn = None, rtpport = 4000, rtcpport = 0,
           address = Some \<lparr>ip = ''10.0.0.1'', port = 4000\<rparr>, channel = None,
           media_formats =
             [\<lparr>format_id = 0, name = Some ''PCMU/8000'', format_alias = Some ''g711u''\<rparr>,
              \<lparr>format_id = 8, name = Some ''PCMA/8000'', format_alias = Some ''g711a''\<rparr>]\<rparr>"
  by (simp add: packet_sdp_dissect_media_def g_strsplit_def g_strsplit_loop.simps G_MAXINT_def
        strtoul_4000 strtoul_0 strtoul_8 standard_format_0 standard_format_8 media_type_audio
        address_new_def)

lemma scenario_attribute:
  "packet_sdp_dissect_attribute sdp (Some 0) ''rtpmap:0 PCMU/8000'' = Inr sdp"
  by (simp add: packet_sdp_dissect_attribute_def g_strsplit_set_def G_MAXINT_def
        g_ascii_tolower_def strtoul_0 standard_format_0)

lemma scenario_lines:
  assumes "9 \<le> A"
  shows "dissect_lines A (\<lparr>sconn = None, medias = []\<rparr>, None)
           [''v=0'', ''c=IN IP4 10.0.0.1'', ''m=audio 4000 RTP/AVP 0 8'', ''a=rtpmap:0 PCMU/8000''] =
         Inr (\<lparr>sconn = Some ''10.0.0.1'',
               medias =
                 [\<lparr>media_type = SDP_MEDIA_AUDIO, media_sconn = None, rtpport = 4000, rtcpport = 0,
                   address = Some \<lparr>ip = ''10.0.0.1'', port = 4000\<rparr>, channel = None,
                   media_formats =
                     [\<lparr>format_id = 0, name = Some ''PCMU/8000'', format_alias = Some ''g711u''\<rparr>,
                      \<lparr>format_id = 8, name = Some ''PCMA/8000'', format_alias = Some ''g711a''\<rparr>]\<rparr>]\<rparr>,
              Some 0)"
proof -
  have m: "dissect_line A (\<lparr>sconn = Some ''10.0.0.1'', medias = []\<rparr>, None)
             ''m=audio 4000 RTP/AVP 0 8'' =
           Inr (\<lparr>sconn = Some ''10.0.0.1'',
                 medias =
                   [\<lparr>media_type = SDP_MEDIA_AUDIO, media_sconn = None, rtpport = 4000, rtcpport = 0,
                     address = Some \<lparr>ip = ''10.0.0.1'', port = 4000\<rparr>, channel = None,
                     media_formats =
                       [\<lparr>format_id = 0, name = Some ''PCMU/8000'', format_alias = Some ''g711u''\<rparr>,
                        \<lparr>format_id = 8, name = Some ''PCMA/8000'', format_alias = Some ''g711a''\<rparr>]\<rparr>]\<rparr>,
                Some 0)"
    by (simp add: dissect_line_def scenario_media)
  have a: "\<And>sdp. dissect_line A (sdp, Some 0) ''a=rtpmap:0 PCMU/8000'' = Inr (sdp, Some 0)"
    by (simp add: dissect_line_def scenario_attribute)
  show ?thesis
    by (simp add: scenario_line_v scenario_line_c [OF assms] m a)
qed

lemma scenario_dissect:
  assumes "9 \<le> A"
  shows "packet_dissector_sdp_dissect A
           (''v=0'' @ CRLF @ ''c=IN IP4 10.0.0.1'' @ CRLF @ ''m=audio 4000 RTP/AVP 0 8'' @ CRLF @
            ''a=rtpmap:0 PCMU/8000'') =
         Inr (None,
              Some \<lparr>sconn = Some ''10.0.0.1'',
                    medias =
                      [\<lparr>media_type = SDP_MEDIA_AUDIO, media_sconn = None, rtpport = 4000,
                        rtcpport = 0, address = Some \<lparr>ip = ''10.0.0.1'', port = 4000\<rparr>,
                        channel = None,
                        media_formats =
                          [\<lparr>format_id = 0, name = Some ''PCMU/8000'', format_alias = Some ''g711u''\<rparr>,
                           \<lparr>format_id = 8, name = Some ''PCMA/8000'', format_alias = Some ''g711a''\<rparr>]\<rparr>]\<rparr>)"
proof -
  let ?body = "''v=0'' @ CRLF @ ''c=IN IP4 10.0.0.1'' @ CRLF @ ''m=audio 4000 RTP/AVP 0 8'' @ CRLF @
               ''a=rtpmap:0 PCMU/8000''"
  have c: "c_str ?body = ?body"
    by (simp add: c_str_def CRLF_def)
  have ne: "length ?body \<noteq> 0"
    by simp
  show ?thesis
    unfolding packet_dissector_sdp_dissect_def Let_def c scenario_split
    using ne by (simp only: scenario_lines [OF assms] if_False sum.case prod.case)
qed

text \<open>
  C3. Dissecting the body
  \<open>v=0 CRLF c=IN IP4 10.0.0.1 CRLF m=audio 4000 RTP/AVP 0 8 CRLF a=rtpmap:0 PCMU/8000\<close>
  stores SDP data with exactly one media descriptor, of type audio, with RTP port
  4000 and two formats, the first of which is named \<open>PCMU/8000\<close>. The connection
  buffer has to hold the nine bytes of the address and its terminator.
\<close>

theorem sdp_media_extraction:
  assumes "9 \<le> ADDRESSLEN"
  shows "\<exists>sdp media.
     packet_dissector_sdp_dissect ADDRESSLEN
       (''v=0'' @ CRLF @ ''c=IN IP4 10.0.0.1'' @ CRLF @ ''m=audio 4000 RTP/AVP 0 8'' @ CRLF @
        ''a=rtpmap:0 PCMU/8000'') = Inr (None, Some sdp) \<and>
     medias sdp = [media] \<and>
     media_type media = SDP_MEDIA_AUDIO \<and>
     rtpport media = 4000 \<and>
     length (media_formats media) = 2 \<and>
     name (media_formats media ! 0) = Some ''PCMU/8000''"
  unfolding scenario_dissect [OF assms] by simp

theorem sdp_media_extraction_witness:
  "\<exists>sdp media.
     packet_dissector_sdp_dissect 16
       (''v=0'' @ CRLF @ ''c=IN IP4 10.0.0.1'' @ CRLF @ ''m=audio 4000 RTP/AVP 0 8'' @ CRLF @
        ''a=rtpmap:0 PCMU/8000'') = Inr (None, Some sdp) \<and>
     medias sdp = [media] \<and>
     media_type media = SDP_MEDIA_AUDIO \<and>
     rtpport media = 4000 \<and>
     length (media_formats media) = 2 \<and>
     name (media_formats media ! 0) = Some ''PCMU/8000''"
  using sdp_media_extraction [of 16] by simp

subsection \<open>Media types\<close>

lemma of_char_zero_iff: "(of_char c :: nat) = 0 \<longleftrightarrow> c = CHR 0x00"
proof -
  have "(of_char c :: nat) = of_char (CHR 0x00) \<longleftrightarrow> c = CHR 0x00"
    by (simp only: of_char_eq_iff)
  then show ?thesis by simp
qed

lemma tolower_nul: "g_ascii_tolower c = CHR 0x00 \<longleftrightarrow> c = CHR 0x00"
proof
  assume a: "g_ascii_tolower c = CHR 0x00"
  show "c = CHR 0x00"
  proof (cases "65 \<le> (of_char c :: nat) \<and> (of_char c :: nat) \<le> 90")
    case True
    then have "g_ascii_tolower c = char_of (of_char c + 32 :: nat)"
      by (simp add: g_ascii_tolower_def)
    then have "(of_char (g_ascii_tolower c) :: nat) = (of_char c + 32) mod 256"
      by simp
    with True a show ?thesis by simp
  next
    case False
    with a show ?thesis by (simp add: g_ascii_tolower_def)
  qed
next
  assume "c = CHR 0x00"
  then show "g_ascii_tolower c = CHR 0x00" by (simp add: g_ascii_tolower_def)
qed

text \<open>
  Against a string of lower-case bytes without NUL, which is what the rows of the
  tables are, the comparison is 0 exactly for the strings that are equal to it after
  lower-casing.
\<close>

lemma strcasecmp_zero_iff:
  assumes "\<forall>c \<in> set t. c \<noteq> CHR 0x00 \<and> g_ascii_tolower c = c"
  shows "g_ascii_strcasecmp s t = 0 \<longleftrightarrow> map g_ascii_tolower (c_str s) = t"
  using assms
proof (induction s t rule: g_ascii_strcasecmp.induct)
  case 1
  then show ?case by (simp add: c_str_def)
next
  case (2 b s2)
  then show ?case by (simp add: c_str_def of_char_zero_iff)
next
  case (3 a s1)
  then show ?case by (simp add: c_str_def of_char_zero_iff)
next
  case (4 a s1 b s2)
  from "4.prems" have b: "b \<noteq> CHR 0x00" "g_ascii_tolower b = b"
    and rest: "\<forall>c \<in> set s2. c \<noteq> CHR 0x00 \<and> g_ascii_tolower c = c" by auto
  show ?case
  proof (cases "a = CHR 0x00")
    case True
    then have "g_ascii_strcasecmp (a # s1) (b # s2) = - int (of_char b)"
      by simp
    moreover have "(of_char b :: nat) \<noteq> 0"
      using b by (simp add: of_char_zero_iff)
    moreover have "c_str (a # s1) = []"
      using True by (simp add: c_str_def)
    ultimately show ?thesis by simp
  next
    case a: False
    then have cs: "c_str (a # s1) = a # c_str s1"
      by (simp add: c_str_def)
    show ?thesis
    proof (cases "g_ascii_tolower a = b")
      case True
      have "g_ascii_strcasecmp (a # s1) (b # s2) = g_ascii_strcasecmp s1 s2"
        using True a b by simp
      then show ?thesis
        using "4.IH" [OF _ refl refl _ rest] True a b cs by simp
    next
      case False
      then have "int (of_char (g_ascii_tolower a)) \<noteq> int (of_char (g_ascii_tolower b))"
        using b by simp
      then have "g_ascii_strcasecmp (a # s1) (b # s2) \<noteq> 0"
        using a b by (simp add: Let_def)
      moreover have "map g_ascii_tolower (c_str (a # s1)) \<noteq> b # s2"
        using False cs by simp
      ultimately show ?thesis by simp
    qed
  qed
qed

lemma media_types_lower:
  "\<forall>e \<in> set media_types. \<forall>c \<in> set (fst e). c \<noteq> CHR 0x00 \<and> g_ascii_tolower c = c"
  by (simp add: media_types_def g_ascii_tolower_def)

lemma packet_sdp_media_type_find:
  "packet_sdp_media_type s =
     (case find (\<lambda>e. map g_ascii_tolower (c_str s) = fst e) media_types of
        Some e \<Rightarrow> snd e | None \<Rightarrow> SDP_MEDIA_UNKNOWN)"
proof -
  have "find (\<lambda>e. g_ascii_strcasecmp s (fst e) = 0) media_types =
        find (\<lambda>e. map g_ascii_tolower (c_str s) = fst e) media_types"
    by (rule find_cong [OF refl]) (use media_types_lower strcasecmp_zero_iff in blast)
  then show ?thesis by (simp add: packet_sdp_media_type_def)
qed

text \<open>
  C10. For every known media type, \<open>packet_sdp_media_type\<close> maps the string given
  by \<open>packet_sdp_media_type_str\<close> back to the type; \<open>packet_sdp_media_type\<close>
  returns \<open>SDP_MEDIA_UNKNOWN\<close> exactly for the strings that are, ASCII case
  ignored, none of the six names; \<open>packet_sdp_media_type_str\<close> returns \<open>NULL\<close>
  for \<open>SDP_MEDIA_UNKNOWN\<close>.
\<close>

theorem packet_sdp_media_type_roundtrip:
  "(t \<noteq> SDP_MEDIA_UNKNOWN \<longrightarrow>
      (\<exists>s. packet_sdp_media_type_str t = Some s \<and> packet_sdp_media_type s = t)) \<and>
   (packet_sdp_media_type str = SDP_MEDIA_UNKNOWN \<longleftrightarrow>
      map g_ascii_tolower (c_str str) \<notin>
        {''audio'', ''video'', ''text'', ''application'', ''message'', ''image''}) \<and>
   packet_sdp_media_type_str SDP_MEDIA_UNKNOWN = None"
proof (intro conjI impI)
  assume "t \<noteq> SDP_MEDIA_UNKNOWN"
  then show "\<exists>s. packet_sdp_media_type_str t = Some s \<and> packet_sdp_media_type s = t"
    by (cases t)
      (simp_all add: packet_sdp_media_type_str_def packet_sdp_media_type_find media_types_def
         c_str_def g_ascii_tolower_def)
next
  show "packet_sdp_media_type str = SDP_MEDIA_UNKNOWN \<longleftrightarrow>
          map g_ascii_tolower (c_str str) \<notin>
            {''audio'', ''video'', ''text'', ''application'', ''message'', ''image''}"
    by (simp add: packet_sdp_media_type_find media_types_def)
next
  show "packet_sdp_media_type_str SDP_MEDIA_UNKNOWN = None"
    by (simp add: packet_sdp_media_type_str_def media_types_def)
qed

theorem packet_sdp_media_type_roundtrip_witness:
  "(\<exists>s. packet_sdp_media_type_str SDP_MEDIA_VIDEO = Some s \<and>
        packet_sdp_media_type s = SDP_MEDIA_VIDEO) \<and>
   packet_sdp_media_type ''ViDeo'' \<noteq> SDP_MEDIA_UNKNOWN \<and>
   packet_sdp_media_type ''data'' = SDP_MEDIA_UNKNOWN"
  using packet_sdp_media_type_roundtrip [of SDP_MEDIA_VIDEO "''ViDeo''"]
    packet_sdp_media_type_roundtrip [of SDP_MEDIA_VIDEO "''data''"]
  by (simp add: c_str_def g_ascii_tolower_def char_of_eq_iff)

subsection \<open>The format list of a media line\<close>

lemma dissect_media_formats_eq:
  "dissect_media_formats fs acc =
     acc @ map (\<lambda>f. case packet_sdp_standard_format (ucast (strtoul f)) of
                       Some std \<Rightarrow> std
                     | None \<Rightarrow> \<lparr>format_id = ucast (strtoul f), name = None, format_alias = None\<rparr>) fs"
  by (induction fs arbitrary: acc) (simp_all add: Let_def)

lemma standard_format_id:
  "packet_sdp_standard_format code = Some std \<Longrightarrow> format_id std = code"
  by (auto simp: packet_sdp_standard_format_def find_Some_iff)

text \<open>
  C6. A media line yields a descriptor exactly when it has four fields. The format
  list of the descriptor then has one entry per listed code, in the order listed:
  the row of the standard table when the code is in the table, and otherwise a record
  that carries the code and neither name nor alias.
\<close>

theorem packet_sdp_dissect_media_formats:
  fixes line :: string
  defines "codes \<equiv> map (\<lambda>f. ucast (strtoul f) :: 32 word)
                      (g_strsplit (g_strsplit line '' '' 4 ! 3) '' '' (- 1))"
  shows "(packet_sdp_dissect_media sdp line = None \<longleftrightarrow> length (g_strsplit line '' '' 4) < 4) \<and>
         (\<forall>media. packet_sdp_dissect_media sdp line = Some media \<longrightarrow>
            map format_id (media_formats media) = codes \<and>
            (\<forall>i < length codes.
               media_formats media ! i =
                 (case packet_sdp_standard_format (codes ! i) of
                    Some std \<Rightarrow> std
                  | None \<Rightarrow> \<lparr>format_id = codes ! i, name = None, format_alias = None\<rparr>)))"
proof (intro conjI allI impI)
  show "packet_sdp_dissect_media sdp line = None \<longleftrightarrow> length (g_strsplit line '' '' 4) < 4"
    by (simp add: packet_sdp_dissect_media_def Let_def)
next
  fix media
  assume a: "packet_sdp_dissect_media sdp line = Some media"
  let ?fmt = "\<lambda>f. case packet_sdp_standard_format (ucast (strtoul f)) of
                       Some std \<Rightarrow> std
                     | None \<Rightarrow> \<lparr>format_id = ucast (strtoul f), name = None, format_alias = None\<rparr>"
  let ?toks = "g_strsplit (g_strsplit line '' '' 4 ! 3) '' '' (- 1)"
  from a have fm: "media_formats media = map ?fmt ?toks"
    by (auto simp: packet_sdp_dissect_media_def Let_def dissect_media_formats_eq split: if_splits)
  have id: "\<And>f. format_id (?fmt f) = ucast (strtoul f)"
    by (auto split: option.splits dest: standard_format_id)
  show "map format_id (media_formats media) = codes"
    unfolding fm codes_def by (simp add: id comp_def)
  show "media_formats media ! i =
          (case packet_sdp_standard_format (codes ! i) of
             Some std \<Rightarrow> std
           | None \<Rightarrow> \<lparr>format_id = codes ! i, name = None, format_alias = None\<rparr>)"
    if "i < length codes" for i
    using that unfolding fm codes_def by (simp split: option.splits)
qed

lemma strtoul_96: "strtoul ''96'' = 96"
  by (simp add: strtoul_def isspace_def isdigit_def)

lemma standard_format_96: "packet_sdp_standard_format 96 = None"
  by (simp add: packet_sdp_standard_format_def formats_def)

theorem packet_sdp_dissect_media_formats_witness:
  "\<exists>media.
     packet_sdp_dissect_media \<lparr>sconn = None, medias = []\<rparr> ''audio 4000 RTP/AVP 0 96 8'' =
       Some media \<and>
     map format_id (media_formats media) = [0, 96, 8] \<and>
     media_formats media ! 1 = \<lparr>format_id = 96, name = None, format_alias = None\<rparr>"
proof -
  let ?sdp = "\<lparr>sconn = None, medias = []\<rparr>"
  let ?line = "''audio 4000 RTP/AVP 0 96 8''"
  have sp: "g_strsplit ?line '' '' 4 = [''audio'', ''4000'', ''RTP/AVP'', ''0 96 8'']"
    by (simp add: g_strsplit_def g_strsplit_loop.simps)
  have toks: "g_strsplit ''0 96 8'' '' '' (- 1) = [''0'', ''96'', ''8'']"
    by (simp add: g_strsplit_def g_strsplit_loop.simps G_MAXINT_def)
  note th = packet_sdp_dissect_media_formats [of ?sdp ?line]
  from th have "packet_sdp_dissect_media ?sdp ?line \<noteq> None"
    by (simp add: sp)
  then obtain media where m: "packet_sdp_dissect_media ?sdp ?line = Some media"
    by auto
  from th m have "map format_id (media_formats media) = [0, 96, 8]"
    and "media_formats media ! 1 = \<lparr>format_id = 96, name = None, format_alias = None\<rparr>"
    by (simp_all add: sp toks strtoul_0 strtoul_8 strtoul_96 standard_format_96)
  with m show ?thesis by simp
qed

subsection \<open>Fields of a line\<close>






lemma strsplit_set_token:
  "set tok \<inter> set ds = {} \<Longrightarrow>
   g_strsplit_set_loop (tok @ rest) ds n cur = g_strsplit_set_loop rest ds n (cur @ tok)"
  by (induction tok arbitrary: cur) auto

lemma strsplit_set_last:
  "set tok \<inter> set ds = {} \<Longrightarrow> g_strsplit_set_loop tok ds n cur = [cur @ tok]"
  using strsplit_set_token [of tok ds "[]" n cur] by simp

lemma strsplit_set_cut:
  assumes "set tok \<inter> set ds = {}" "d \<in> set ds" "1 < n"
  shows "g_strsplit_set_loop (tok @ d # rest) ds n cur =
           (cur @ tok) # g_strsplit_set_loop rest ds (n - 1) []"
  using assms by (simp add: strsplit_set_token)

lemma strsplit_set_loop_nonempty: "g_strsplit_set_loop s ds n cur \<noteq> []"
  by (induction s ds n cur rule: g_strsplit_set_loop.induct) auto

text \<open>The pieces of the three attribute lines.\<close>

lemma rtpmap_pieces:
  assumes "set tc \<inter> set '' :/'' = {}" "set nm \<inter> set '' :/'' = {}"
  shows "\<exists>more. g_strsplit_set (''rtpmap:'' @ tc @ '' '' @ nm @ ''/'' @ rate) '' :/'' (- 1) =
           ''rtpmap'' # tc # nm # more \<and> more \<noteq> []"
proof -
  let ?ds = "'' :/''"
  have 1: "set ''rtpmap'' \<inter> set ?ds = {}" by simp
  have "g_strsplit_set_loop (''rtpmap'' @ CHR '':'' # (tc @ CHR '' '' # (nm @ CHR ''/'' # rate))) ?ds 2147483647 [] =
        ([] @ ''rtpmap'') # g_strsplit_set_loop (tc @ CHR '' '' # (nm @ CHR ''/'' # rate)) ?ds (2147483647 - 1) []"
    by (rule strsplit_set_cut [OF 1]) simp_all
  also have "g_strsplit_set_loop (tc @ CHR '' '' # (nm @ CHR ''/'' # rate)) ?ds (2147483647 - 1) [] =
        ([] @ tc) # g_strsplit_set_loop (nm @ CHR ''/'' # rate) ?ds (2147483647 - 1 - 1) []"
    by (rule strsplit_set_cut [OF assms(1)]) simp_all
  also have "g_strsplit_set_loop (nm @ CHR ''/'' # rate) ?ds (2147483647 - 1 - 1) [] =
        ([] @ nm) # g_strsplit_set_loop rate ?ds (2147483647 - 1 - 1 - 1) []"
    by (rule strsplit_set_cut [OF assms(2)]) simp_all
  finally have "g_strsplit_set_loop (''rtpmap:'' @ tc @ '' '' @ nm @ ''/'' @ rate) ?ds 2147483647 [] =
        ''rtpmap'' # tc # nm # g_strsplit_set_loop rate ?ds 2147483644 []"
    by simp
  then show ?thesis
    by (simp add: g_strsplit_set_def G_MAXINT_def strsplit_set_loop_nonempty)
qed

lemma value_pieces:
  assumes "set key \<inter> set '' :/'' = {}" "set v \<inter> set '' :/'' = {}" "key \<noteq> []"
  shows "g_strsplit_set (key @ '':'' @ v) '' :/'' (- 1) = [key, v]"
proof -
  have "g_strsplit_set_loop (key @ CHR '':'' # v) '' :/'' 2147483647 [] = [key, v]"
    by (simp add: strsplit_set_cut [OF assms(1)] strsplit_set_last [OF assms(2)])
  then show ?thesis using assms(3)
    by (simp add: g_strsplit_set_def G_MAXINT_def)
qed

lemma rtpmap_set_name_first:
  "i < length fs \<Longrightarrow> format_id (fs ! i) = code \<Longrightarrow> \<forall>j < i. format_id (fs ! j) \<noteq> code \<Longrightarrow>
   rtpmap_set_name code v fs = fs[i := (fs ! i)\<lparr>name := Some v, format_alias := Some v\<rparr>]"
proof (induction fs arbitrary: i)
  case Nil
  then show ?case by simp
next
  case (Cons f fs)
  show ?case
  proof (cases i)
    case 0
    with Cons.prems show ?thesis by simp
  next
    case (Suc i')
    with Cons.prems have "format_id f \<noteq> code" by auto
    moreover have "rtpmap_set_name code v fs = fs[i' := (fs ! i')\<lparr>name := Some v, format_alias := Some v\<rparr>]"
      using Cons.prems Suc by (intro Cons.IH) auto
    ultimately show ?thesis using Suc by simp
  qed
qed

lemma first_format_with_code:
  "code \<in> format_id ` set fs \<Longrightarrow>
   \<exists>i < length fs. format_id (fs ! i) = code \<and> (\<forall>j < i. format_id (fs ! j) \<noteq> code)"
proof (induction fs)
  case Nil
  then show ?case by simp
next
  case (Cons f fs)
  show ?case
  proof (cases "format_id f = code")
    case True
    then have "0 < length (f # fs) \<and> format_id ((f # fs) ! 0) = code \<and>
               (\<forall>j < 0. format_id ((f # fs) ! j) \<noteq> code)"
      by simp
    then show ?thesis by blast
  next
    case False
    with Cons.prems have "code \<in> format_id ` set fs" by auto
    from Cons.IH [OF this] obtain i
      where i: "i < length fs" "format_id (fs ! i) = code" "\<forall>j < i. format_id (fs ! j) \<noteq> code"
      by blast
    have "\<forall>j < Suc i. format_id ((f # fs) ! j) \<noteq> code"
    proof (intro allI impI)
      fix j
      assume "j < Suc i"
      then show "format_id ((f # fs) ! j) \<noteq> code"
        using False i(3) by (cases j) auto
    qed
    with i have "Suc i < length (f # fs) \<and> format_id ((f # fs) ! Suc i) = code \<and>
                 (\<forall>j < Suc i. format_id ((f # fs) ! j) \<noteq> code)"
      by simp
    then show ?thesis by blast
  qed
qed

lemma rtpmap_set_name_absent:
  "code \<notin> format_id ` set fs \<Longrightarrow> rtpmap_set_name code v fs = fs"
  by (induction fs) auto

lemma cmp_rtpmap: "g_ascii_strcasecmp ''rtpmap'' ''rtpmap'' = 0"
  by (simp add: g_ascii_tolower_def)
lemma cmp_rtcp: "g_ascii_strcasecmp ''rtcp'' ''rtpmap'' \<noteq> 0" "g_ascii_strcasecmp ''rtcp'' ''rtcp'' = 0"
  by (simp_all add: g_ascii_tolower_def)
lemma cmp_channel: "g_ascii_strcasecmp ''channel'' ''rtpmap'' \<noteq> 0" "g_ascii_strcasecmp ''channel'' ''rtcp'' \<noteq> 0"
   "g_ascii_strcasecmp ''channel'' ''channel'' = 0"
  by (simp_all add: g_ascii_tolower_def)

subsection \<open>Attribute lines\<close>

lemma strtoul_4001: "strtoul ''4001'' = 4001"
  by (simp add: strtoul_def isspace_def isdigit_def)
text \<open>
  C4, as stated, fails for the codes of the standard table: the rtpmap branch looks
  the code up in the table first and does nothing when it is there. A media that
  lists payload type 0 keeps the table's name \<open>PCMU/8000\<close> for it, whatever an
  \<open>a=rtpmap:0\<close> line says.
\<close>

theorem packet_sdp_dissect_attribute_standard_code:
  "packet_sdp_dissect_attribute
     \<lparr>sconn = None,
      medias =
        [\<lparr>media_type = SDP_MEDIA_AUDIO, media_sconn = None, rtpport = 4000, rtcpport = 0,
          address = None, channel = None,
          media_formats =
            [\<lparr>format_id = 0, name = Some ''PCMU/8000'', format_alias = Some ''g711u''\<rparr>]\<rparr>]\<rparr>
     (Some 0) ''rtpmap:0 opus/48000'' =
   Inr \<lparr>sconn = None,
        medias =
          [\<lparr>media_type = SDP_MEDIA_AUDIO, media_sconn = None, rtpport = 4000, rtcpport = 0,
            address = None, channel = None,
            media_formats =
              [\<lparr>format_id = 0, name = Some ''PCMU/8000'', format_alias = Some ''g711u''\<rparr>]\<rparr>]\<rparr>"
  by (simp add: packet_sdp_dissect_attribute_def g_strsplit_set_def G_MAXINT_def
        g_ascii_tolower_def strtoul_0 standard_format_0)

text \<open>
  C4, amended. Let the pointer be at media \<open>k\<close>, and let \<open>c\<close>, \<open>name\<close>,
  \<open>port\<close> and \<open>tag\<close> be free of space, colon and slash. A line
  \<open>rtpmap:c name/rate\<close> whose code is not in the standard table and is listed by
  that media gives the first format of the media with that code the name (and
  alias) \<open>name\<close> and changes nothing else; when the code is in the standard table
  the line changes nothing. A
  line \<open>rtcp:port\<close> sets the RTCP port of that media to the number \<open>strtoul\<close>
  reads from \<open>port\<close>, and a line \<open>channel:tag\<close> sets its channel to \<open>tag\<close>.
\<close>

theorem packet_sdp_dissect_attribute_effect:
  fixes sdp :: PacketSdpData and k :: nat
  assumes k: "k < length (medias sdp)"
    and tc: "set tc \<inter> set '' :/'' = {}" and nm: "set nm \<inter> set '' :/'' = {}"
    and tp: "set tp \<inter> set '' :/'' = {}" and tag: "set tag \<inter> set '' :/'' = {}"
  defines "code \<equiv> (ucast (strtoul tc) :: 32 word)"
  defines "fs \<equiv> media_formats (medias sdp ! k)"
  shows
    "(packet_sdp_standard_format code = None \<and> code \<in> format_id ` set fs \<longrightarrow>
        (\<exists>i < length fs.
           format_id (fs ! i) = code \<and> (\<forall>j < i. format_id (fs ! j) \<noteq> code) \<and>
           packet_sdp_dissect_attribute sdp (Some k) (''rtpmap:'' @ tc @ '' '' @ nm @ ''/'' @ rate) =
             Inr (sdp\<lparr>medias := (medias sdp)
                    [k := (medias sdp ! k)
                       \<lparr>media_formats :=
                          fs[i := (fs ! i)\<lparr>name := Some nm, format_alias := Some nm\<rparr>]\<rparr>]\<rparr>))) \<and>
     (packet_sdp_standard_format code \<noteq> None \<longrightarrow>
        packet_sdp_dissect_attribute sdp (Some k) (''rtpmap:'' @ tc @ '' '' @ nm @ ''/'' @ rate) =
          Inr sdp) \<and>
     packet_sdp_dissect_attribute sdp (Some k) (''rtcp:'' @ tp) =
       Inr (sdp\<lparr>medias := (medias sdp)[k := (medias sdp ! k)\<lparr>rtcpport := ucast (strtoul tp)\<rparr>]\<rparr>) \<and>
     packet_sdp_dissect_attribute sdp (Some k) (''channel:'' @ tag) =
       Inr (sdp\<lparr>medias := (medias sdp)[k := (medias sdp ! k)\<lparr>channel := Some tag\<rparr>]\<rparr>)"
proof -
  obtain more
    where sp: "g_strsplit_set (''rtpmap:'' @ tc @ '' '' @ nm @ ''/'' @ rate) '' :/'' (- 1) =
                 ''rtpmap'' # tc # nm # more"
    using rtpmap_pieces [OF tc nm] by blast
  have named: "\<exists>i < length fs.
           format_id (fs ! i) = code \<and> (\<forall>j < i. format_id (fs ! j) \<noteq> code) \<and>
           packet_sdp_dissect_attribute sdp (Some k) (''rtpmap:'' @ tc @ '' '' @ nm @ ''/'' @ rate) =
             Inr (sdp\<lparr>medias := (medias sdp)
                    [k := (medias sdp ! k)
                       \<lparr>media_formats :=
                          fs[i := (fs ! i)\<lparr>name := Some nm, format_alias := Some nm\<rparr>]\<rparr>]\<rparr>)"
    if none: "packet_sdp_standard_format code = None" and listed: "code \<in> format_id ` set fs"
  proof -
    from first_format_with_code [OF listed] obtain i
      where i: "i < length fs" "format_id (fs ! i) = code" "\<forall>j < i. format_id (fs ! j) \<noteq> code"
      by blast
    have "rtpmap_set_name code nm fs = fs[i := (fs ! i)\<lparr>name := Some nm, format_alias := Some nm\<rparr>]"
      using i by (intro rtpmap_set_name_first) auto
    then have "packet_sdp_dissect_attribute sdp (Some k) (''rtpmap:'' @ tc @ '' '' @ nm @ ''/'' @ rate) =
             Inr (sdp\<lparr>medias := (medias sdp)
                    [k := (medias sdp ! k)
                       \<lparr>media_formats :=
                          fs[i := (fs ! i)\<lparr>name := Some nm, format_alias := Some nm\<rparr>]\<rparr>]\<rparr>)"
      using none unfolding packet_sdp_dissect_attribute_def sp Let_def
      by (simp add: cmp_rtpmap code_def [symmetric] fs_def [symmetric])
    with i show ?thesis by blast
  qed
  have standard: "packet_sdp_dissect_attribute sdp (Some k)
                    (''rtpmap:'' @ tc @ '' '' @ nm @ ''/'' @ rate) = Inr sdp"
    if "packet_sdp_standard_format code \<noteq> None"
    using that unfolding packet_sdp_dissect_attribute_def sp Let_def
    by (auto simp add: cmp_rtpmap code_def [symmetric])
  have "g_strsplit_set (''rtcp'' @ '':'' @ tp) '' :/'' (- 1) = [''rtcp'', tp]"
    by (rule value_pieces) (use tp in simp_all)
  then have sp2: "g_strsplit_set (''rtcp:'' @ tp) '' :/'' (- 1) = [''rtcp'', tp]"
    by simp
  have rtcp: "packet_sdp_dissect_attribute sdp (Some k) (''rtcp:'' @ tp) =
       Inr (sdp\<lparr>medias := (medias sdp)[k := (medias sdp ! k)\<lparr>rtcpport := ucast (strtoul tp)\<rparr>]\<rparr>)"
    unfolding packet_sdp_dissect_attribute_def sp2 Let_def
    by (simp add: cmp_rtcp)
  have "g_strsplit_set (''channel'' @ '':'' @ tag) '' :/'' (- 1) = [''channel'', tag]"
    by (rule value_pieces) (use tag in simp_all)
  then have sp3: "g_strsplit_set (''channel:'' @ tag) '' :/'' (- 1) = [''channel'', tag]"
    by simp
  have chan: "packet_sdp_dissect_attribute sdp (Some k) (''channel:'' @ tag) =
       Inr (sdp\<lparr>medias := (medias sdp)[k := (medias sdp ! k)\<lparr>channel := Some tag\<rparr>]\<rparr>)"
    unfolding packet_sdp_dissect_attribute_def sp3 Let_def
    by (simp add: cmp_channel)
  from named standard rtcp chan show ?thesis
    by blast
qed

theorem packet_sdp_dissect_attribute_effect_witness:
  "packet_sdp_dissect_attribute
     \<lparr>sconn = None,
      medias =
        [\<lparr>media_type = SDP_MEDIA_AUDIO, media_sconn = None, rtpport = 4000, rtcpport = 0,
          address = None, channel = None,
          media_formats =
            [\<lparr>format_id = 0, name = Some ''PCMU/8000'', format_alias = Some ''g711u''\<rparr>,
             \<lparr>format_id = 96, name = None, format_alias = None\<rparr>]\<rparr>]\<rparr>
     (Some 0) ''rtpmap:96 opus/48000/2'' =
   Inr \<lparr>sconn = None,
        medias =
          [\<lparr>media_type = SDP_MEDIA_AUDIO, media_sconn = None, rtpport = 4000, rtcpport = 0,
            address = None, channel = None,
            media_formats =
              [\<lparr>format_id = 0, name = Some ''PCMU/8000'', format_alias = Some ''g711u''\<rparr>,
               \<lparr>format_id = 96, name = Some ''opus'', format_alias = Some ''opus''\<rparr>]\<rparr>]\<rparr> \<and>
   packet_sdp_dissect_attribute
     \<lparr>sconn = None,
      medias =
        [\<lparr>media_type = SDP_MEDIA_AUDIO, media_sconn = None, rtpport = 4000, rtcpport = 0,
          address = None, channel = None,
          media_formats =
            [\<lparr>format_id = 0, name = Some ''PCMU/8000'', format_alias = Some ''g711u''\<rparr>,
             \<lparr>format_id = 96, name = None, format_alias = None\<rparr>]\<rparr>]\<rparr>
     (Some 0) ''rtcp:4001'' =
   Inr \<lparr>sconn = None,
        medias =
          [\<lparr>media_type = SDP_MEDIA_AUDIO, media_sconn = None, rtpport = 4000, rtcpport = 4001,
            address = None, channel = None,
            media_formats =
              [\<lparr>format_id = 0, name = Some ''PCMU/8000'', format_alias = Some ''g711u''\<rparr>,
               \<lparr>format_id = 96, name = None, format_alias = None\<rparr>]\<rparr>]\<rparr> \<and>
   packet_sdp_dissect_attribute
     \<lparr>sconn = None,
      medias =
        [\<lparr>media_type = SDP_MEDIA_AUDIO, media_sconn = None, rtpport = 4000, rtcpport = 0,
          address = None, channel = None,
          media_formats =
            [\<lparr>format_id = 0, name = Some ''PCMU/8000'', format_alias = Some ''g711u''\<rparr>,
             \<lparr>format_id = 96, name = None, format_alias = None\<rparr>]\<rparr>]\<rparr>
     (Some 0) ''channel:32AECB23433801@speechrecog'' =
   Inr \<lparr>sconn = None,
        medias =
          [\<lparr>media_type = SDP_MEDIA_AUDIO, media_sconn = None, rtpport = 4000, rtcpport = 0,
            address = None, channel = Some ''32AECB23433801@speechrecog'',
            media_formats =
              [\<lparr>format_id = 0, name = Some ''PCMU/8000'', format_alias = Some ''g711u''\<rparr>,
               \<lparr>format_id = 96, name = None, format_alias = None\<rparr>]\<rparr>]\<rparr>"
proof -
  have two: "\<And>P. (\<exists>i < Suc (Suc 0). P i) \<longleftrightarrow> P 0 \<or> P (Suc 0)"
    by (auto simp: less_Suc_eq)
  show ?thesis
    using packet_sdp_dissect_attribute_effect [where tc = "''96''" and nm = "''opus''"
      and tp = "''4001''" and tag = "''32AECB23433801@speechrecog''" and k = 0
      and rate = "''48000/2''"
      and sdp = "\<lparr>sconn = None,
        medias =
          [\<lparr>media_type = SDP_MEDIA_AUDIO, media_sconn = None, rtpport = 4000, rtcpport = 0,
            address = None, channel = None,
            media_formats =
              [\<lparr>format_id = 0, name = Some ''PCMU/8000'', format_alias = Some ''g711u''\<rparr>,
               \<lparr>format_id = 96, name = None, format_alias = None\<rparr>]\<rparr>]\<rparr>"]
    by (simp add: strtoul_96 strtoul_4001 standard_format_96 two)
qed

subsection \<open>The loop over the lines\<close>


lemma dissect_line_m:
  "dissect_line A (sdp, media) (''m='' @ line) =
     (case packet_sdp_dissect_media sdp line of
        None \<Rightarrow> Inr (sdp, None)
      | Some m \<Rightarrow> Inr (sdp\<lparr>medias := medias sdp @ [m]\<rparr>, Some (length (medias sdp))))"
  by (simp add: dissect_line_def)

lemma dissect_line_a:
  "dissect_line A (sdp, media) (''a='' @ line) =
     (case packet_sdp_dissect_attribute sdp media line of
        Inl e \<Rightarrow> Inl e
      | Inr sdp' \<Rightarrow> Inr (sdp', media))"
  by (simp add: dissect_line_def)



text \<open>A media line with fewer than four fields adds nothing and resets the pointer.\<close>

lemma dissect_line_media_malformed:
  assumes "length (g_strsplit ml '' '' 4) < 4"
  shows "dissect_line A (sdp, media) (''m='' @ ml) = Inr (sdp, None)"
  unfolding dissect_line_m using assms by (simp add: packet_sdp_dissect_media_def Let_def)











subsection \<open>Connection lines\<close>

text \<open>Evaluation of single lines.\<close>

lemma eval_media_audio:
  "packet_sdp_dissect_media sdp ''audio 4000 RTP/AVP 0'' =
     Some \<lparr>media_type = SDP_MEDIA_AUDIO, media_sconn = None, rtpport = 4000, rtcpport = 0,
           address = map_option (\<lambda>conn. address_new conn 4000) (sconn sdp), channel = None,
           media_formats =
             [\<lparr>format_id = 0, name = Some ''PCMU/8000'', format_alias = Some ''g711u''\<rparr>]\<rparr>"
  by (simp add: packet_sdp_dissect_media_def g_strsplit_def g_strsplit_loop.simps G_MAXINT_def
        strtoul_4000 strtoul_0 standard_format_0 media_type_audio split: option.splits)

lemma eval_media_video_short: "packet_sdp_dissect_media sdp ''video 0'' = None"
  by (simp add: packet_sdp_dissect_media_def g_strsplit_def g_strsplit_loop.simps)

lemma eval_attribute_rtcp:
  "packet_sdp_dissect_attribute sdp media ''rtcp:4001'' =
     (case media of
        None \<Rightarrow> Inl NullDeref
      | Some k \<Rightarrow> Inr (sdp\<lparr>medias := (medias sdp)[k := (medias sdp ! k)\<lparr>rtcpport := 4001\<rparr>]\<rparr>))"
  by (simp add: packet_sdp_dissect_attribute_def g_strsplit_set_def G_MAXINT_def
        g_ascii_tolower_def strtoul_4001 split: option.splits)

















subsection \<open>A malformed media line\<close>

lemma malformed_split:
  "g_strsplit (''m=audio 4000 RTP/AVP 0'' @ CRLF @ ''m=video 0'' @ CRLF @ ''a=rtcp:4001'') CRLF (- 1) =
     [''m=audio 4000 RTP/AVP 0'', ''m=video 0'', ''a=rtcp:4001'']"
  by (simp add: CRLF_def g_strsplit_def g_strsplit_loop.simps G_MAXINT_def)

lemma malformed_split_short:
  "g_strsplit (''m=audio 4000 RTP/AVP 0'' @ CRLF @ ''m=video 0'') CRLF (- 1) =
     [''m=audio 4000 RTP/AVP 0'', ''m=video 0'']"
  by (simp add: CRLF_def g_strsplit_def g_strsplit_loop.simps G_MAXINT_def)

text \<open>
  C9. After a media line with fewer than four fields the \<open>media\<close> pointer is
  \<open>NULL\<close>. The body \<open>m=audio 4000 RTP/AVP 0 CRLF m=video 0 CRLF a=rtcp:4001\<close>
  has a well-formed media line followed by a malformed one; its attribute line
  makes \<open>packet_sdp_dissect_attribute\<close> write through the \<open>NULL\<close> pointer.
  Without the attribute line the dissection returns the data with the descriptor of
  the well-formed line only.
\<close>

theorem sdp_malformed_media_then_attribute:
  "packet_dissector_sdp_dissect A
     (''m=audio 4000 RTP/AVP 0'' @ CRLF @ ''m=video 0'' @ CRLF @ ''a=rtcp:4001'') = Inl NullDeref \<and>
   packet_dissector_sdp_dissect A (''m=audio 4000 RTP/AVP 0'' @ CRLF @ ''m=video 0'') =
     Inr (None,
          Some \<lparr>sconn = None,
                medias =
                  [\<lparr>media_type = SDP_MEDIA_AUDIO, media_sconn = None, rtpport = 4000, rtcpport = 0,
                    address = None, channel = None,
                    media_formats =
                      [\<lparr>format_id = 0, name = Some ''PCMU/8000'', format_alias = Some ''g711u''\<rparr>]\<rparr>]\<rparr>)"
proof -
  let ?b1 = "''m=audio 4000 RTP/AVP 0'' @ CRLF @ ''m=video 0'' @ CRLF @ ''a=rtcp:4001''"
  let ?b2 = "''m=audio 4000 RTP/AVP 0'' @ CRLF @ ''m=video 0''"
  have c1: "c_str ?b1 = ?b1" and c2: "c_str ?b2 = ?b2"
    by (simp_all add: c_str_def CRLF_def)
  have l1: "dissect_lines A (\<lparr>sconn = None, medias = []\<rparr>, None)
              [''m=audio 4000 RTP/AVP 0'', ''m=video 0'', ''a=rtcp:4001''] = Inl NullDeref"
    by (simp add: dissect_line_def eval_media_audio eval_media_video_short eval_attribute_rtcp)
  have l2: "dissect_lines A (\<lparr>sconn = None, medias = []\<rparr>, None)
              [''m=audio 4000 RTP/AVP 0'', ''m=video 0''] =
            Inr (\<lparr>sconn = None,
                medias =
                  [\<lparr>media_type = SDP_MEDIA_AUDIO, media_sconn = None, rtpport = 4000, rtcpport = 0,
                    address = None, channel = None,
                    media_formats =
                      [\<lparr>format_id = 0, name = Some ''PCMU/8000'', format_alias = Some ''g711u''\<rparr>]\<rparr>]\<rparr>, None)"
    by (simp add: dissect_line_def eval_media_audio eval_media_video_short)
  have "packet_dissector_sdp_dissect A ?b1 = Inl NullDeref"
    unfolding packet_dissector_sdp_dissect_def Let_def c1 malformed_split l1 by simp
  moreover have "packet_dissector_sdp_dissect A ?b2 = Inr (None,
          Some \<lparr>sconn = None,
                medias =
                  [\<lparr>media_type = SDP_MEDIA_AUDIO, media_sconn = None, rtpport = 4000, rtcpport = 0,
                    address = None, channel = None,
                    media_formats =
                      [\<lparr>format_id = 0, name = Some ''PCMU/8000'', format_alias = Some ''g711u''\<rparr>]\<rparr>]\<rparr>)"
    unfolding packet_dissector_sdp_dissect_def Let_def c2 malformed_split_short l2 by simp
  ultimately show ?thesis by simp
qed

end
